theory Spec2Isabelle
  imports Complex_Main "HOL-Library.AList"
begin

section \<open>Order service and payment service: a shallow embedding\<close>

text \<open>
  The order service (\<^verbatim>\<open>OrderService\<close> and \<^verbatim>\<open>OrderRepository\<close>) and the payment
  service (\<^verbatim>\<open>MpesaService\<close>, \<^verbatim>\<open>TransactionRepository\<close>, the callback route of
  the payment service's \<^verbatim>\<open>index.ts\<close>) are embedded as functions over an explicit state.

  Conventions of the model:
  \<^item> a thrown \<^verbatim>\<open>Error\<close> is a value \<open>Inl e\<close>; every operation returns its result together
    with the state it leaves behind, because a throw does not undo earlier writes;
  \<^item> a JavaScript \<^verbatim>\<open>number\<close> that the services compute with is a \<open>real\<close>: the
    rounding of IEEE doubles, \<^verbatim>\<open>NaN\<close> and the infinities are not modelled;
  \<^item> the document store is reliable: a write to an existing document succeeds, an
    \<^verbatim>\<open>update\<close> of a missing document throws, and the store's own validation of field
    values is not modelled;
  \<^item> \<^verbatim>\<open>new Date()\<close>, generated document identifiers, \<^verbatim>\<open>Math.random()\<close> and the
    replies of the other services are parameters of each operation; one clock reading
    serves a whole operation;
  \<^item> console output is recorded by the label of the logged line.
\<close>

subsection \<open>Errors\<close>

text \<open>
  \<open>Error m\<close> is \<^verbatim>\<open>new Error(m)\<close> (also a \<^verbatim>\<open>TypeError\<close>, which the code never tells
  apart). \<open>AxiosError m r\<close> is a failed HTTP call with message \<open>m\<close>, where \<open>r\<close> is
  \<^verbatim>\<open>error.response?.data?.errorMessage\<close> when the gateway sent one.
\<close>

datatype error = Error string | AxiosError string "string option"

fun message :: "error \<Rightarrow> string" where
  "message (Error m) = m"
| "message (AxiosError m r) = m"

subsection \<open>Order service: data\<close>

datatype OrderStatus =
  Pending | Confirmed | Processing | Shipped | Delivered | Cancelled | Refunded | Failed

datatype PaymentStatus =
  PaymentPending | Paid | PaymentFailed | PaymentRefunded | PartiallyRefunded

datatype ShippingStatus =
  ShippingPending | ShippingProcessing | ShippingShipped | InTransit | OutForDelivery
  | ShippingDelivered | ShippingFailed | Returned

text \<open>The string value of an \<^verbatim>\<open>OrderStatus\<close> member, as a template literal prints it.\<close>

fun status_string :: "OrderStatus \<Rightarrow> string" where
  "status_string Pending = ''pending''"
| "status_string Confirmed = ''confirmed''"
| "status_string Processing = ''processing''"
| "status_string Shipped = ''shipped''"
| "status_string Delivered = ''delivered''"
| "status_string Cancelled = ''cancelled''"
| "status_string Refunded = ''refunded''"
| "status_string Failed = ''failed''"

record Address =
  street :: string
  city :: string
  state :: string
  country :: string
  postalCode :: string
  addressPhone :: string
  email :: "string option"
  addressNotes :: "string option"

record OrderItem =
  productId :: string
  variantId :: "string option"
  sku :: string
  name :: string
  quantity :: real
  price :: real
  itemDiscount :: real
  itemTax :: real
  itemTotal :: real

text \<open>\<^verbatim>\<open>CreateOrderRequest\<close>: the output of \<^verbatim>\<open>CreateOrderSchema\<close>.\<close>

record CreateOrderRequest =
  userId :: string
  items :: "OrderItem list"
  shippingAddress :: Address
  billingAddress :: "Address option"
  paymentMethod :: string
  shippingMethod :: string
  shippingCost :: real
  discount :: real
  tax :: real
  subtotal :: real
  order_total :: real
  currency :: string
  order_notes :: "string option"
  couponCode :: "string option"

text \<open>
  A stored order document. \<^verbatim>\<open>OrderRepository.create\<close> spreads the request into the
  document, so an order has every field of the request, and the fields below. The
  source's \<^verbatim>\<open>id\<close>, \<^verbatim>\<open>total\<close> and \<^verbatim>\<open>notes\<close> are \<open>order_id\<close>, \<open>order_total\<close> and
  \<open>order_notes\<close> here.
\<close>

record Order = CreateOrderRequest +
  order_id :: string
  orderNumber :: string
  status :: OrderStatus
  paymentStatus :: PaymentStatus
  shippingStatus :: ShippingStatus
  metadata :: "(string \<times> string option) list"
  paymentTransactionId :: "string option"
  cancelledAt :: "nat option"
  cancelledBy :: "string option"
  cancellationReason :: "string option"
  statusHistory :: "OrderStatus \<rightharpoonup> nat \<times> string"
  createdAt :: nat
  updatedAt :: nat

text \<open>An entry of the \<^verbatim>\<open>user_orders\<close> collection, the per-user index.\<close>

record UserOrder =
  idx_userId :: string
  idx_orderId :: string
  idx_orderNumber :: string
  idx_status :: OrderStatus
  idx_total :: real
  idx_createdAt :: nat
  idx_updatedAt :: "nat option"

text \<open>The requests the order service sends to its collaborators.\<close>

datatype http_call =
  InventoryValidate "OrderItem list"
  | InventoryReserve string "OrderItem list"
  | InventoryConfirm string "OrderItem list"
  | InventoryRelease string "OrderItem list"
  | PaymentRefund string "string option" real "string option"
  | NotificationEmail string string

text \<open>
  The state the order service works on: the two collections, the requests sent so far
  (oldest first) and the console.
\<close>

record store =
  orders :: "string \<rightharpoonup> Order"
  user_orders :: "string \<rightharpoonup> UserOrder"
  outbox :: "http_call list"
  console :: "string list"

text \<open>
  What the collaborators answer during one operation. \<open>validate_reply\<close> is \<open>None\<close> when
  the inventory service is unreachable or answers with an error status, and
  \<open>Some v\<close> when it answers with \<^verbatim>\<open>data.valid\<close> truthy (\<open>v = True\<close>) or not.
\<close>

record collaborators =
  validate_reply :: "bool option"
  reserve_ok :: bool
  release_ok :: bool
  refund_ok :: bool
  email_ok :: bool

subsection \<open>Decimal printing\<close>

definition digit_char :: "nat \<Rightarrow> char" where
  "digit_char d = ''0123456789'' ! (d mod 10)"

fun dec_nat :: "nat \<Rightarrow> string" where
  "dec_nat n = (if n < 10 then [digit_char n] else dec_nat (n div 10) @ [digit_char n])"

declare dec_nat.simps [simp del]

definition dec_int :: "int \<Rightarrow> string" where
  "dec_int i = (if i < 0 then CHR ''-'' # dec_nat (nat (- i)) else dec_nat (nat i))"

text \<open>\<^verbatim>\<open>s.padStart(n, c)\<close> and \<^verbatim>\<open>s.slice(-n)\<close>.\<close>

definition padStart :: "nat \<Rightarrow> char \<Rightarrow> string \<Rightarrow> string" where
  "padStart n c s = replicate (n - length s) c @ s"

definition slice_last :: "nat \<Rightarrow> string \<Rightarrow> string" where
  "slice_last n s = drop (length s - n) s"

subsection \<open>Order repository\<close>

definition generateOrderNumber :: "nat \<Rightarrow> nat \<Rightarrow> string" where
  "generateOrderNumber now rnd =
     ''ORD-'' @ slice_last 6 (dec_nat now) @ padStart 4 (CHR ''0'') (dec_nat rnd)"

text \<open>
  \<^verbatim>\<open>create\<close>: the defaults, overridden by the order data, stamped, and written together
  with the index entry in one transaction. \<open>newId\<close> is the identifier of the fresh document
  reference, \<open>rnd\<close> is \<^verbatim>\<open>Math.floor(Math.random() * 10000)\<close>. The only caller passes a
  whole request and the metadata, so the defaults for currency and metadata are always
  overridden.
\<close>

definition create ::
  "nat \<Rightarrow> string \<Rightarrow> nat \<Rightarrow> CreateOrderRequest \<Rightarrow> (string \<times> string option) list \<Rightarrow> store
     \<Rightarrow> Order \<times> store" where
  "create now newId rnd orderData meta s =
     (let order = \<lparr> userId = userId orderData, items = items orderData,
            shippingAddress = shippingAddress orderData,
            billingAddress = billingAddress orderData,
            paymentMethod = paymentMethod orderData,
            shippingMethod = shippingMethod orderData,
            shippingCost = shippingCost orderData, discount = discount orderData,
            tax = tax orderData, subtotal = subtotal orderData, order_total = order_total orderData,
            currency = currency orderData, order_notes = order_notes orderData,
            couponCode = couponCode orderData,
            order_id = newId, orderNumber = generateOrderNumber now rnd,
            status = Pending, paymentStatus = PaymentPending,
            shippingStatus = ShippingPending, metadata = meta,
            paymentTransactionId = None, cancelledAt = None, cancelledBy = None,
            cancellationReason = None, statusHistory = Map.empty,
            createdAt = now, updatedAt = now \<rparr>;
          entry = \<lparr> idx_userId = userId order, idx_orderId = order_id order,
            idx_orderNumber = orderNumber order, idx_status = status order,
            idx_total = order_total order, idx_createdAt = now, idx_updatedAt = None \<rparr>
      in (order, s\<lparr> orders := (orders s)(newId \<mapsto> order),
                     user_orders := (user_orders s)(userId order @ ''_'' @ order_id order \<mapsto> entry) \<rparr>))"

definition findById :: "string \<Rightarrow> store \<Rightarrow> Order option" where
  "findById i s = orders s i"

text \<open>
  \<^verbatim>\<open>update(id, data)\<close>: the partial order \<open>data\<close> is the function that writes its fields
  into a document. Updating a missing document throws.
\<close>

definition update ::
  "nat \<Rightarrow> string \<Rightarrow> (Order \<Rightarrow> Order) \<Rightarrow> store \<Rightarrow> (error + unit) \<times> store" where
  "update now i data s =
     (case orders s i of
        None \<Rightarrow> (Inl (Error ''NOT_FOUND: No document to update''), s)
      | Some d \<Rightarrow> (Inr (), s\<lparr> orders := (orders s)(i \<mapsto> (data d)\<lparr> updatedAt := now \<rparr>) \<rparr>))"

text \<open>
  \<^verbatim>\<open>updateStatus\<close>: the order document first, then the index entry. The history entry
  is written only for a truthy reason (present and not empty). When the index entry is
  missing its update throws, after the order document has been written.
\<close>

definition updateStatus ::
  "nat \<Rightarrow> string \<Rightarrow> OrderStatus \<Rightarrow> string option \<Rightarrow> store \<Rightarrow> (error + unit) \<times> store" where
  "updateStatus now i st reason s =
     (case findById i s of
        None \<Rightarrow> (Inl (Error ''Order not found''), s)
      | Some order \<Rightarrow>
          (let hist = (case reason of
                         None \<Rightarrow> statusHistory order
                       | Some r \<Rightarrow> if r = [] then statusHistory order
                                  else (statusHistory order)(st \<mapsto> (now, r)));
               s1 = s\<lparr> orders := (orders s)(i \<mapsto> order\<lparr> status := st,
                          statusHistory := hist, updatedAt := now \<rparr>) \<rparr>;
               k = userId order @ ''_'' @ i
           in case user_orders s1 k of
                None \<Rightarrow> (Inl (Error ''NOT_FOUND: No document to update''), s1)
              | Some e \<Rightarrow>
                  (Inr (), s1\<lparr> user_orders := (user_orders s1)(k \<mapsto>
                                   e\<lparr> idx_status := st, idx_updatedAt := Some now \<rparr>) \<rparr>)))"

subsection \<open>Order service\<close>

definition console_log :: "string \<Rightarrow> store \<Rightarrow> store" where
  "console_log line s = s\<lparr> console := console s @ [line] \<rparr>"

definition send :: "http_call \<Rightarrow> store \<Rightarrow> store" where
  "send c s = s\<lparr> outbox := outbox s @ [c] \<rparr>"


text \<open>The table of \<^verbatim>\<open>validateStatusTransition\<close>.\<close>

fun validTransitions :: "OrderStatus \<Rightarrow> OrderStatus list" where
  "validTransitions Pending = [Confirmed, Cancelled, Failed]"
| "validTransitions Confirmed = [Processing, Cancelled, Refunded]"
| "validTransitions Processing = [Shipped, Cancelled]"
| "validTransitions Shipped = [Delivered, Cancelled]"
| "validTransitions Delivered = [Refunded]"
| "validTransitions Cancelled = []"
| "validTransitions Refunded = []"
| "validTransitions Failed = [Pending, Cancelled]"

definition validateStatusTransition :: "OrderStatus \<Rightarrow> OrderStatus \<Rightarrow> error + unit" where
  "validateStatusTransition current next =
     (if next \<notin> set (validTransitions current)
      then Inl (Error (''Cannot transition from '' @ status_string current @ '' to ''
                        @ status_string next))
      else Inr ())"




definition releaseInventory :: "collaborators \<Rightarrow> string \<Rightarrow> OrderItem list \<Rightarrow> store \<Rightarrow> store" where
  "releaseInventory c orderId its s =
     (let s1 = send (InventoryRelease orderId its) s
      in if release_ok c then s1 else console_log ''Inventory release error:'' s1)"

definition initiateRefund :: "collaborators \<Rightarrow> Order \<Rightarrow> store \<Rightarrow> store" where
  "initiateRefund c order s =
     (let s1 = send (PaymentRefund (order_id order) (paymentTransactionId order) (order_total order)
                        (cancellationReason order)) s
      in if refund_ok c then s1 else console_log ''Refund initiation error:'' s1)"



definition publishOrderStatusChanged :: "string \<Rightarrow> OrderStatus \<Rightarrow> string option \<Rightarrow> store \<Rightarrow> store" where
  "publishOrderStatusChanged orderId st reason s = console_log ''Order status changed:'' s"



text \<open>
  \<^verbatim>\<open>updateOrderStatus\<close> and \<^verbatim>\<open>cancelOrder\<close> end with
  \<^verbatim>\<open>return (await this.orderRepo.findById(orderId))!\<close>: they return what the last read
  finds, which is an order or \<^verbatim>\<open>null\<close>.
\<close>

definition updateOrderStatus ::
  "nat \<Rightarrow> string \<Rightarrow> OrderStatus \<Rightarrow> string option \<Rightarrow> store
     \<Rightarrow> (error + Order option) \<times> store" where
  "updateOrderStatus now orderId st reason s =
     (case findById orderId s of
        None \<Rightarrow> (Inl (Error ''Order not found''), s)
      | Some order \<Rightarrow>
          (case validateStatusTransition (status order) st of
             Inl e \<Rightarrow> (Inl e, s)
           | Inr u \<Rightarrow>
               (case updateStatus now orderId st reason s of
                  (Inl e, s1) \<Rightarrow> (Inl e, s1)
                | (Inr u, s1) \<Rightarrow>
                    (let s2 = publishOrderStatusChanged orderId st reason s1
                     in (Inr (findById orderId s2), s2)))))"

definition cancelOrder ::
  "nat \<Rightarrow> collaborators \<Rightarrow> string \<Rightarrow> string \<Rightarrow> string \<Rightarrow> store
     \<Rightarrow> (error + Order option) \<times> store" where
  "cancelOrder now c orderId reason actor s =
     (case findById orderId s of
        None \<Rightarrow> (Inl (Error ''Order not found''), s)
      | Some order \<Rightarrow>
          if status order \<notin> set [Pending, Confirmed]
          then (Inl (Error ''Order cannot be cancelled at this stage''), s)
          else
            (case update now orderId
                    (\<lambda>d. d\<lparr> status := Cancelled, cancelledAt := Some now,
                            cancelledBy := Some actor, cancellationReason := Some reason \<rparr>) s of
               (Inl e, s1) \<Rightarrow> (Inl e, s1)
             | (Inr u, s1) \<Rightarrow>
                 (let s2 = releaseInventory c orderId (items order) s1;
                      s3 = (if paymentStatus order = Paid then initiateRefund c order s2 else s2)
                  in (Inr (findById orderId s3), s3))))"

subsection \<open>JavaScript values\<close>

text \<open>
  The callback route reads an untyped body (\<^verbatim>\<open>request.body as any\<close>), so the model
  works on JavaScript values: the values of parsed JSON and \<^verbatim>\<open>undefined\<close>, which is
  what reading an absent property gives. Numbers in a callback body are integers here,
  printed in decimal (exact below \<open>10^21\<close>); fractions are not modelled.
\<close>

datatype jsv =
  JUndefined | JNull | JBool bool | JNum int | JStr string
  | JArr "jsv list" | JObj "(string \<times> jsv) list"

fun nullish :: "jsv \<Rightarrow> bool" where
  "nullish JUndefined = True"
| "nullish JNull = True"
| "nullish v = False"

fun truthy :: "jsv \<Rightarrow> bool" where
  "truthy JUndefined = False"
| "truthy JNull = False"
| "truthy (JBool b) = b"
| "truthy (JNum n) = (n \<noteq> 0)"
| "truthy (JStr s) = (s \<noteq> [])"
| "truthy (JArr xs) = True"
| "truthy (JObj kvs) = True"

text \<open>
  \<^verbatim>\<open>v.k\<close> for a value that is neither \<^verbatim>\<open>null\<close> nor \<^verbatim>\<open>undefined\<close>, for the property
  names the route reads (none of them is inherited from a prototype). An object lists
  each of its keys once.
\<close>

fun get :: "jsv \<Rightarrow> string \<Rightarrow> jsv" where
  "get (JObj kvs) k = (case map_of kvs k of None \<Rightarrow> JUndefined | Some v \<Rightarrow> v)"
| "get v k = JUndefined"

definition TypeError :: error where
  "TypeError = Error ''TypeError''"

text \<open>\<^verbatim>\<open>v.k\<close> throws on \<^verbatim>\<open>null\<close> and \<^verbatim>\<open>undefined\<close>; \<^verbatim>\<open>v?.k\<close> gives \<^verbatim>\<open>undefined\<close> there.\<close>

definition read_prop :: "jsv \<Rightarrow> string \<Rightarrow> error + jsv" where
  "read_prop v k = (if nullish v then Inl TypeError else Inr (get v k))"

definition opt_chain :: "jsv \<Rightarrow> string \<Rightarrow> jsv" where
  "opt_chain v k = (if nullish v then JUndefined else get v k)"

text \<open>
  \<^verbatim>\<open>v.toString()\<close>. It throws on \<^verbatim>\<open>null\<close> and \<^verbatim>\<open>undefined\<close>, and on an object whose
  own property \<^verbatim>\<open>toString\<close> hides the inherited method (a parsed body holds no
  function). An array joins its elements with commas, \<^verbatim>\<open>null\<close> printing as nothing.
\<close>

fun js_toString :: "jsv \<Rightarrow> error + string"
  and js_join :: "jsv list \<Rightarrow> error + string" where
  "js_toString JUndefined = Inl TypeError"
| "js_toString JNull = Inl TypeError"
| "js_toString (JBool b) = Inr (if b then ''true'' else ''false'')"
| "js_toString (JNum n) = Inr (dec_int n)"
| "js_toString (JStr s) = Inr s"
| "js_toString (JArr xs) = js_join xs"
| "js_toString (JObj kvs) =
     (if map_of kvs ''toString'' = None then Inr ''[object Object]'' else Inl TypeError)"
| "js_join [] = Inr []"
| "js_join (x # xs) =
     (case (if nullish x then Inr [] else js_toString x) of
        Inl e \<Rightarrow> Inl e
      | Inr t \<Rightarrow> (case xs of
                    [] \<Rightarrow> Inr t
                  | y # ys \<Rightarrow> (case js_join xs of Inl e \<Rightarrow> Inl e | Inr u \<Rightarrow> Inr (t @ '','' @ u))))"

text \<open>\<^verbatim>\<open>`${v}`\<close>, the string a template literal prints.\<close>

definition js_String :: "jsv \<Rightarrow> error + string" where
  "js_String v = (if v = JUndefined then Inr ''undefined''
                  else if v = JNull then Inr ''null'' else js_toString v)"

subsection \<open>Transaction ledger\<close>

text \<open>
  A field of a ledger document holds a value taken from a request or a callback
  (\<open>FJs\<close>), a number the service computed (\<open>FNumber\<close>) or a date (\<open>FDate\<close>). A document
  is the list of its fields; the collection \<^verbatim>\<open>mpesa_transactions\<close> is the list of its
  documents with their identifiers, in the order a query returns them.
\<close>

datatype fval = FJs jsv | FNumber real | FDate nat

type_synonym doc = "(string \<times> fval) list"

type_synonym collection = "(string \<times> doc) list"

definition field :: "doc \<Rightarrow> string \<Rightarrow> fval option" where
  "field d k = map_of d k"

text \<open>\<^verbatim>\<open>docRef.update(u)\<close>: the fields of \<open>u\<close> replace or extend those of the document.\<close>

definition merge_fields :: "doc \<Rightarrow> doc \<Rightarrow> doc" where
  "merge_fields d u = AList.merge d u"

definition stamped :: "nat \<Rightarrow> doc \<Rightarrow> doc" where
  "stamped now u = AList.update ''updatedAt'' (FDate now) u"

definition createTransaction :: "nat \<Rightarrow> string \<Rightarrow> doc \<Rightarrow> collection \<Rightarrow> collection" where
  "createTransaction now newId data c =
     c @ [(newId, AList.update ''updatedAt'' (FDate now)
                    (AList.update ''createdAt'' (FDate now) data))]"

definition matches :: "jsv \<Rightarrow> string \<times> doc \<Rightarrow> bool" where
  "matches checkoutRequestId r = (field (snd r) ''checkoutRequestId'' = Some (FJs checkoutRequestId))"

definition findByCheckoutRequestId :: "jsv \<Rightarrow> collection \<Rightarrow> (string \<times> doc) option" where
  "findByCheckoutRequestId checkoutRequestId c = find (matches checkoutRequestId) c"

fun update_first :: "jsv \<Rightarrow> doc \<Rightarrow> collection \<Rightarrow> collection" where
  "update_first checkoutRequestId u [] = []"
| "update_first checkoutRequestId u (r # rest) =
     (if matches checkoutRequestId r then (fst r, merge_fields (snd r) u) # rest
      else r # update_first checkoutRequestId u rest)"

definition updateTransaction :: "nat \<Rightarrow> jsv \<Rightarrow> doc \<Rightarrow> collection \<Rightarrow> error + collection" where
  "updateTransaction now checkoutRequestId updates c =
     (case find (matches checkoutRequestId) c of
        None \<Rightarrow> (case js_String checkoutRequestId of
                   Inl e \<Rightarrow> Inl e
                 | Inr t \<Rightarrow> Inl (Error (''Transaction not found: '' @ t)))
      | Some r \<Rightarrow> Inr (update_first checkoutRequestId (stamped now updates) c))"

subsection \<open>The callback route\<close>

record ack =
  ResultCode :: int
  ResultDesc :: string

definition Success :: ack where
  "Success = \<lparr> ResultCode = 0, ResultDesc = ''Success'' \<rparr>"

text \<open>The body of the \<^verbatim>\<open>forEach\<close>: four independent tests on the item's name.\<close>

definition item_step :: "jsv \<Rightarrow> doc \<Rightarrow> doc" where
  "item_step item updateData =
     (let u1 = (if get item ''Name'' = JStr ''Amount''
                then AList.update ''amount'' (FJs (get item ''Value'')) updateData
                else updateData);
          u2 = (if get item ''Name'' = JStr ''MpesaReceiptNumber''
                then AList.update ''mpesaReceiptNumber'' (FJs (get item ''Value'')) u1 else u1);
          u3 = (if get item ''Name'' = JStr ''TransactionDate''
                then AList.update ''transactionDate'' (FJs (get item ''Value'')) u2 else u2)
      in if get item ''Name'' = JStr ''PhoneNumber''
         then AList.update ''phone'' (FJs (get item ''Value'')) u3 else u3)"

fun forEach_items :: "jsv list \<Rightarrow> doc \<Rightarrow> error + doc" where
  "forEach_items [] updateData = Inr updateData"
| "forEach_items (item # rest) updateData =
     (if nullish item then Inl TypeError else forEach_items rest (item_step item updateData))"

text \<open>\<^verbatim>\<open>items.forEach(...)\<close>: only an array has the method.\<close>

fun forEach :: "jsv \<Rightarrow> error + doc" where
  "forEach (JArr xs) = forEach_items xs []"
| "forEach v = Inl TypeError"

text \<open>
  The \<^verbatim>\<open>try\<close> block of the route. The update object is built before
  \<^verbatim>\<open>updateTransaction\<close> is called, so a throwing \<^verbatim>\<open>resultCode.toString()\<close> leaves the
  ledger as it was.
\<close>

definition callback_try :: "nat \<Rightarrow> jsv \<Rightarrow> collection \<Rightarrow> (error + unit) \<times> collection" where
  "callback_try now callback c =
     (case read_prop callback ''Body'' of
        Inl e \<Rightarrow> (Inl e, c)
      | Inr body \<Rightarrow>
          (let stkCallback = opt_chain body ''stkCallback''
           in if \<not> truthy stkCallback then (Inr (), c)
              else
                (let resultCode = get stkCallback ''ResultCode'';
                     checkoutRequestId = get stkCallback ''CheckoutRequestID''
                 in case findByCheckoutRequestId checkoutRequestId c of
                      None \<Rightarrow> (Inr (), c)
                    | Some transaction \<Rightarrow>
                        (case js_toString resultCode of
                           Inl e \<Rightarrow> (Inl e, c)
                         | Inr code \<Rightarrow>
                             (case updateTransaction now checkoutRequestId
                                     [(''status'', FJs (JStr (if resultCode = JStr ''0''
                                                              then ''completed'' else ''failed''))),
                                      (''resultCode'', FJs (JStr code)),
                                      (''resultDescription'', FJs (get stkCallback ''ResultDesc'')),
                                      (''callbackData'', FJs callback)] c of
                                Inl e \<Rightarrow> (Inl e, c)
                              | Inr c1 \<Rightarrow>
                                  if resultCode = JStr ''0''
                                     \<and> truthy (opt_chain (get stkCallback ''CallbackMetadata'') ''Item'')
                                  then
                                    (case forEach (get (get stkCallback ''CallbackMetadata'') ''Item'') of
                                       Inl e \<Rightarrow> (Inl e, c1)
                                     | Inr updateData \<Rightarrow>
                                         (case updateTransaction now checkoutRequestId updateData c1 of
                                            Inl e \<Rightarrow> (Inl e, c1)
                                          | Inr c2 \<Rightarrow> (Inr (), c2)))
                                  else (Inr (), c1))))))"

text \<open>The route: both the normal end of the \<^verbatim>\<open>try\<close> block and the \<^verbatim>\<open>catch\<close> answer.\<close>

definition mpesa_callback :: "nat \<Rightarrow> jsv \<Rightarrow> collection \<Rightarrow> ack \<times> collection" where
  "mpesa_callback now callback c =
     (case callback_try now callback c of
        (Inl e, c') \<Rightarrow> (\<lparr> ResultCode = 0, ResultDesc = ''Success'' \<rparr>, c')
      | (Inr u, c') \<Rightarrow> (\<lparr> ResultCode = 0, ResultDesc = ''Success'' \<rparr>, c'))"

subsection \<open>The gateway client\<close>

datatype Environment = Sandbox | Production

fun environment_string :: "Environment \<Rightarrow> string" where
  "environment_string Sandbox = ''sandbox''"
| "environment_string Production = ''production''"

record MpesaConfig =
  environment :: Environment
  consumerKey :: string
  consumerSecret :: string
  shortCode :: string
  passKey :: string
  initiatorName :: string
  initiatorPassword :: string
  callbackUrl :: string

record STKPushRequest =
  phone :: string
  amount :: real
  orderId :: string
  description :: "string option"
  accountReference :: "string option"

record STKPushResponse =
  merchantRequestId :: string
  checkoutRequestId :: string
  responseCode :: string
  responseDescription :: string
  customerMessage :: string

record Payload =
  BusinessShortCode :: string
  Password :: string
  Timestamp :: string
  TransactionType :: string
  Amount :: int
  PartyA :: string
  PartyB :: string
  PhoneNumber :: string
  CallBackURL :: string
  AccountReference :: string
  TransactionDesc :: string

text \<open>
  The requests sent to the gateway: the token request with its basic-auth pair, and the
  push request with its bearer token.
\<close>

datatype gateway_call = OAuthGenerate string string | ProcessRequest string Payload

text \<open>
  What the gateway answers during one operation. \<open>token_reply\<close> is \<open>Inl e\<close> when the
  token request fails, else the \<^verbatim>\<open>access_token\<close> of the answer (\<open>None\<close> when absent).
  \<open>push_reply\<close> answers the push request: \<open>Inl e\<close> is the rejected promise, \<open>Inr d\<close> the
  five fields read from \<^verbatim>\<open>response.data\<close>.
\<close>

record gateway =
  token_reply :: "error + string option"
  push_reply :: "Payload \<Rightarrow> error + STKPushResponse"

text \<open>
  One reading of the server clock: the milliseconds of \<^verbatim>\<open>new Date()\<close> and its local
  calendar fields (\<open>month\<close> is \<^verbatim>\<open>getMonth()\<close>, counted from 0).
\<close>

record clock =
  millis :: nat
  year :: nat
  month :: nat
  date :: nat
  hours :: nat
  minutes :: nat
  seconds :: nat

record payments =
  ledger :: collection
  gateway_calls :: "gateway_call list"

definition getAccessToken :: "gateway \<Rightarrow> MpesaConfig \<Rightarrow> payments \<Rightarrow> (error + string) \<times> payments" where
  "getAccessToken g config s =
     (let s1 = s\<lparr> gateway_calls := gateway_calls s
                     @ [OAuthGenerate (consumerKey config) (consumerSecret config)] \<rparr>
      in case token_reply g of
           Inl e \<Rightarrow> (Inl (Error (''Failed to authenticate with M-Pesa: '' @ message e)), s1)
         | Inr None \<Rightarrow>
             (Inl (Error (''Failed to authenticate with M-Pesa: '' @ ''No access token received'')), s1)
         | Inr (Some t) \<Rightarrow>
             if t = []
             then (Inl (Error (''Failed to authenticate with M-Pesa: ''
                                @ ''No access token received'')), s1)
             else (Inr t, s1))"

definition is_digit :: "char \<Rightarrow> bool" where
  "is_digit ch = (ch \<in> set ''0123456789'')"

definition startsWith :: "string \<Rightarrow> string \<Rightarrow> bool" where
  "startsWith s p = (take (length p) s = p)"

definition validateAndFormatPhone :: "string \<Rightarrow> error + string" where
  "validateAndFormatPhone ph =
     (let cleaned = filter is_digit ph
      in if startsWith cleaned ''0'' \<and> length cleaned = 10 then Inr (''254'' @ drop 1 cleaned)
         else if startsWith cleaned ''7'' \<and> length cleaned = 9 then Inr (''254'' @ cleaned)
         else if \<not> startsWith cleaned ''254'' \<or> length cleaned \<noteq> 12
         then Inl (Error ''Invalid phone number format. Use: 2547XXXXXXXX'')
         else Inr cleaned)"

definition validateAmount :: "MpesaConfig \<Rightarrow> real \<Rightarrow> error + int" where
  "validateAmount config a =
     (if a \<le> 0 then Inl (Error ''Amount must be greater than 0'')
      else if environment config = Production \<and> a < 10
      then Inl (Error ''Minimum amount for production is KES 10'')
      else Inr \<lfloor>a\<rfloor>)"

definition generateTimestamp :: "clock \<Rightarrow> string" where
  "generateTimestamp now =
     dec_nat (year now)
     @ padStart 2 (CHR ''0'') (dec_nat (month now + 1))
     @ padStart 2 (CHR ''0'') (dec_nat (date now))
     @ padStart 2 (CHR ''0'') (dec_nat (hours now))
     @ padStart 2 (CHR ''0'') (dec_nat (minutes now))
     @ padStart 2 (CHR ''0'') (dec_nat (seconds now))"

text \<open>\<open>base64\<close> stands for \<^verbatim>\<open>Buffer.from(s).toString('base64')\<close>.\<close>

definition generatePassword :: "(string \<Rightarrow> string) \<Rightarrow> MpesaConfig \<Rightarrow> string \<Rightarrow> string" where
  "generatePassword base64 config timestamp =
     base64 (shortCode config @ passKey config @ timestamp)"

text \<open>\<^verbatim>\<open>a || b\<close> on an optional string: \<open>b\<close> when \<open>a\<close> is absent or empty.\<close>

fun or_else :: "string option \<Rightarrow> string \<Rightarrow> string" where
  "or_else None b = b"
| "or_else (Some a) b = (if a = [] then b else a)"

text \<open>\<^verbatim>\<open>error.response?.data?.errorMessage || error.message\<close>.\<close>

fun error_text :: "error \<Rightarrow> string" where
  "error_text (Error m) = m"
| "error_text (AxiosError m r) = or_else r m"

text \<open>
  The \<^verbatim>\<open>try\<close> block of \<^verbatim>\<open>initiateSTKPush\<close>: it returns the result and the state, or
  the thrown error and the state reached when it was thrown.
\<close>

definition stk_try ::
  "clock \<Rightarrow> string \<Rightarrow> (string \<Rightarrow> string) \<Rightarrow> gateway \<Rightarrow> MpesaConfig \<Rightarrow> STKPushRequest
     \<Rightarrow> payments \<Rightarrow> (error + STKPushResponse) \<times> payments" where
  "stk_try now newId base64 g config request s =
     (case validateAndFormatPhone (phone request) of
        Inl e \<Rightarrow> (Inl e, s)
      | Inr ph \<Rightarrow>
     (case validateAmount config (amount request) of
        Inl e \<Rightarrow> (Inl e, s)
      | Inr amt \<Rightarrow>
     (case getAccessToken g config s of
        (Inl e, s1) \<Rightarrow> (Inl e, s1)
      | (Inr accessToken, s1) \<Rightarrow>
          (let timestamp = generateTimestamp now;
               password = generatePassword base64 config timestamp;
               payload = \<lparr> BusinessShortCode = shortCode config, Password = password,
                  Timestamp = timestamp, TransactionType = ''CustomerPayBillOnline'',
                  Amount = amt, PartyA = ph, PartyB = shortCode config, PhoneNumber = ph,
                  CallBackURL = callbackUrl config @ ''/api/payments/mpesa/callback'',
                  AccountReference = or_else (accountReference request)
                                       (take 12 (orderId request)),
                  TransactionDesc = or_else (description request)
                                      (''Payment for order '' @ orderId request) \<rparr>;
               s2 = s1\<lparr> gateway_calls := gateway_calls s1 @ [ProcessRequest accessToken payload] \<rparr>
           in case push_reply g payload of
                Inl e \<Rightarrow> (Inl e, s2)
              | Inr result \<Rightarrow>
                  (Inr result,
                   s2\<lparr> ledger := createTransaction (millis now) newId
                      [(''orderId'', FJs (JStr (orderId request))),
                       (''merchantRequestId'', FJs (JStr (merchantRequestId result))),
                       (''checkoutRequestId'', FJs (JStr (checkoutRequestId result))),
                       (''phone'', FJs (JStr ph)),
                       (''amount'', FNumber (of_int amt)),
                       (''status'', FJs (JStr ''initiated'')),
                       (''responseCode'', FJs (JStr (responseCode result))),
                       (''responseDescription'', FJs (JStr (responseDescription result))),
                       (''environment'', FJs (JStr (environment_string (environment config))))]
                      (ledger s2) \<rparr>)))))"

text \<open>\<^verbatim>\<open>initiateSTKPush\<close>: the \<^verbatim>\<open>try\<close> block, and the \<^verbatim>\<open>catch\<close> that logs the failed row.\<close>

definition initiateSTKPush ::
  "clock \<Rightarrow> string \<Rightarrow> (string \<Rightarrow> string) \<Rightarrow> gateway \<Rightarrow> MpesaConfig \<Rightarrow> STKPushRequest
     \<Rightarrow> payments \<Rightarrow> (error + STKPushResponse) \<times> payments" where
  "initiateSTKPush now newId base64 g config request s =
     (case stk_try now newId base64 g config request s of
        (Inr result, s1) \<Rightarrow> (Inr result, s1)
      | (Inl e, s1) \<Rightarrow>
          (Inl (Error (''STK Push failed: '' @ error_text e)),
           s1\<lparr> ledger := createTransaction (millis now) newId
              [(''orderId'', FJs (JStr (orderId request))),
               (''phone'', FJs (JStr (phone request))),
               (''amount'', FNumber (amount request)),
               (''status'', FJs (JStr ''failed'')),
               (''errorMessage'', FJs (JStr (error_text e))),
               (''environment'', FJs (JStr (environment_string (environment config))))]
              (ledger s1) \<rparr>))"

subsection \<open>Vocabulary of the properties\<close>

text \<open>
  The transition table as the specification prints it, one pair for each arrow.
\<close>

definition spec_transition_table :: "(OrderStatus \<times> OrderStatus) list" where
  "spec_transition_table =
     [(Pending, Confirmed), (Pending, Cancelled), (Pending, Failed),
      (Confirmed, Processing), (Confirmed, Cancelled), (Confirmed, Refunded),
      (Processing, Shipped), (Processing, Cancelled),
      (Shipped, Delivered), (Shipped, Cancelled),
      (Delivered, Refunded),
      (Failed, Pending), (Failed, Cancelled)]"

text \<open>
  The three shapes of a phone number the specification accepts, as properties of the
  digits of the input: a leading 0 and nine digits, a leading 7 and eight digits, the
  prefix 254 in a string of twelve digits.
\<close>

definition digits_of :: "string \<Rightarrow> string" where
  "digits_of s = filter is_digit s"

definition zero_and_nine_digits :: "string \<Rightarrow> bool" where
  "zero_and_nine_digits ds =
     (case ds of [] \<Rightarrow> False
      | d # rest \<Rightarrow> d = CHR ''0'' \<and> length rest = 9 \<and> list_all is_digit rest)"

definition seven_and_eight_digits :: "string \<Rightarrow> bool" where
  "seven_and_eight_digits ds =
     (case ds of [] \<Rightarrow> False
      | d # rest \<Rightarrow> d = CHR ''7'' \<and> length rest = 8 \<and> list_all is_digit rest)"

definition prefixed_twelve_digits :: "string \<Rightarrow> bool" where
  "prefixed_twelve_digits ds =
     (case ds of
        a # b # c # rest \<Rightarrow>
          a = CHR ''2'' \<and> b = CHR ''5'' \<and> c = CHR ''4'' \<and> length rest = 9 \<and> list_all is_digit rest
      | _ \<Rightarrow> False)"


text \<open>The parts of a callback body the route reads.\<close>

definition stk_of :: "jsv \<Rightarrow> jsv" where
  "stk_of callback = opt_chain (get callback ''Body'') ''stkCallback''"








text \<open>The row the \<^verbatim>\<open>catch\<close> of \<^verbatim>\<open>initiateSTKPush\<close> stores for the error text \<open>m\<close>.\<close>

definition failed_row :: "clock \<Rightarrow> MpesaConfig \<Rightarrow> STKPushRequest \<Rightarrow> string \<Rightarrow> doc" where
  "failed_row now config request m =
     AList.update ''updatedAt'' (FDate (millis now))
       (AList.update ''createdAt'' (FDate (millis now))
          [(''orderId'', FJs (JStr (orderId request))),
           (''phone'', FJs (JStr (phone request))),
           (''amount'', FNumber (amount request)),
           (''status'', FJs (JStr ''failed'')),
           (''errorMessage'', FJs (JStr m)),
           (''environment'', FJs (JStr (environment_string (environment config))))])"

subsection \<open>Sample data\<close>

definition sample_address :: Address where
  "sample_address = \<lparr> street = ''1 Moi Avenue'', city = ''Nairobi'', state = ''Nairobi'',
     country = ''KE'', postalCode = ''00100'', addressPhone = ''0712345678'',
     email = None, addressNotes = None \<rparr>"

definition sample_item :: OrderItem where
  "sample_item = \<lparr> productId = ''p1'', variantId = None, sku = ''sku1'', name = ''Kettle'',
     quantity = 2, price = 100, itemDiscount = 0, itemTax = 0, itemTotal = 200 \<rparr>"

text \<open>A request whose own subtotal and total are wrong on purpose.\<close>

definition sample_request :: CreateOrderRequest where
  "sample_request = \<lparr> userId = ''u1'', items = [sample_item],
     shippingAddress = sample_address, billingAddress = None, paymentMethod = ''mpesa'',
     shippingMethod = ''standard'', shippingCost = 50, discount = 10, tax = 5,
     subtotal = 1, order_total = 1, currency = ''KES'', order_notes = None,
     couponCode = None \<rparr>"

definition empty_store :: store where
  "empty_store = \<lparr> orders = Map.empty, user_orders = Map.empty, outbox = [], console = [] \<rparr>"

definition reserve_fails :: collaborators where
  "reserve_fails = \<lparr> validate_reply = Some True, reserve_ok = False, release_ok = True,
     refund_ok = True, email_ok = True \<rparr>"

definition sample_order :: Order where
  "sample_order = fst (create 1700000000000 ''o1'' 42 sample_request [] empty_store)"

definition sample_store :: store where
  "sample_store = snd (create 1700000000000 ''o1'' 42 sample_request [] empty_store)"

definition paid_store :: store where
  "paid_store = sample_store\<lparr> orders := (orders sample_store)
     (''o1'' \<mapsto> sample_order\<lparr> status := Confirmed, paymentStatus := Paid \<rparr>) \<rparr>"

definition shipped_store :: store where
  "shipped_store = sample_store\<lparr> orders := (orders sample_store)
     (''o1'' \<mapsto> sample_order\<lparr> status := Shipped, paymentStatus := Paid \<rparr>) \<rparr>"

definition sample_config :: MpesaConfig where
  "sample_config = \<lparr> environment = Sandbox, consumerKey = ''key'', consumerSecret = ''secret'',
     shortCode = ''174379'', passKey = ''passkey'', initiatorName = ''api'',
     initiatorPassword = ''pw'', callbackUrl = ''https://shop.example'' \<rparr>"

definition sample_clock :: clock where
  "sample_clock = \<lparr> millis = 1700000000000, year = 2023, month = 10, date = 14, hours = 22,
     minutes = 13, seconds = 20 \<rparr>"

definition sample_gateway :: gateway where
  "sample_gateway = \<lparr> token_reply = Inr (Some ''token''),
     push_reply = (\<lambda>p. Inr \<lparr> merchantRequestId = ''29115-1'', checkoutRequestId = ''ws_CO_1'',
        responseCode = ''0'', responseDescription = ''Accepted'',
        customerMessage = ''Accepted'' \<rparr>) \<rparr>"

definition sample_push :: STKPushRequest where
  "sample_push = \<lparr> phone = ''0712345678'', amount = 245, orderId = ''o1'', description = None,
     accountReference = None \<rparr>"

text \<open>A request with a phone number of no accepted shape and the amount 0.\<close>

definition bad_phone_push :: STKPushRequest where
  "bad_phone_push = \<lparr> phone = ''12345'', amount = 0, orderId = ''o1'', description = None,
     accountReference = None \<rparr>"

definition no_payments :: payments where
  "no_payments = \<lparr> ledger = [], gateway_calls = [] \<rparr>"

text \<open>The row an accepted push for the sample request leaves in the ledger.\<close>

definition sample_row :: doc where
  "sample_row =
     [(''orderId'', FJs (JStr ''o1'')), (''merchantRequestId'', FJs (JStr ''29115-1'')),
      (''checkoutRequestId'', FJs (JStr ''ws_CO_1'')), (''phone'', FJs (JStr ''254712345678'')),
      (''amount'', FNumber 245), (''status'', FJs (JStr ''initiated'')),
      (''responseCode'', FJs (JStr ''0'')), (''responseDescription'', FJs (JStr ''Accepted'')),
      (''environment'', FJs (JStr ''sandbox'')), (''createdAt'', FDate 1700000000000),
      (''updatedAt'', FDate 1700000000000)]"

definition sample_ledger :: collection where
  "sample_ledger = [(''t1'', sample_row)]"



definition production_config :: MpesaConfig where
  "production_config = sample_config\<lparr> environment := Production \<rparr>"

section \<open>Properties\<close>

subsection \<open>The transition table\<close>

text \<open>The table in the code and the table in the specification hold the same pairs.\<close>

lemma valid_iff_table:
  "(nxt \<in> set (validTransitions cur)) = ((cur, nxt) \<in> set spec_transition_table)"
  by (cases cur; cases nxt; simp add: spec_transition_table_def)

subsection \<open>The sample order\<close>

lemma sample_store_order: "orders sample_store ''o1'' = Some sample_order"
  by (simp add: sample_store_def sample_order_def create_def Let_def)

lemma sample_order_fields:
  "status sample_order = Pending" "paymentStatus sample_order = PaymentPending"
  "userId sample_order = ''u1''" "order_id sample_order = ''o1''"
  "items sample_order = [sample_item]" "order_total sample_order = 1"
  "paymentTransactionId sample_order = None" "cancellationReason sample_order = None"
  by (simp_all add: sample_order_def create_def Let_def sample_request_def)

lemma sample_store_index: "user_orders sample_store ''u1_o1'' \<noteq> None"
  by (simp add: sample_store_def create_def Let_def sample_request_def)

subsection \<open>Totals of an order\<close>




subsection \<open>Status updates\<close>

text \<open>
  C1. For a stored order and a target status: when the pair (current status, target) is
  not in the transition table of the specification, \<^verbatim>\<open>updateOrderStatus\<close> fails with
  the invalid-transition error and leaves the whole store as it was; when the pair is in
  the table, the order is stored with the new status, and the refreshed order is
  returned whenever the order has its entry in the per-user index (which creation
  always writes).
\<close>

theorem updateOrderStatus_transitions:
  assumes "orders s oid = Some order"
  shows "((status order, nxt) \<notin> set spec_transition_table \<longrightarrow>
           updateOrderStatus now oid nxt reason s =
             (Inl (Error (''Cannot transition from '' @ status_string (status order)
                           @ '' to '' @ status_string nxt)), s))
       \<and> ((status order, nxt) \<in> set spec_transition_table \<longrightarrow>
           (\<exists>stored. orders (snd (updateOrderStatus now oid nxt reason s)) oid = Some stored
               \<and> status stored = nxt
               \<and> (user_orders s (userId order @ ''_'' @ oid) \<noteq> None \<longrightarrow>
                    fst (updateOrderStatus now oid nxt reason s) = Inr (Some stored))))"
proof (cases "(status order, nxt) \<in> set spec_transition_table")
  case True
  with assms show ?thesis
    by (auto simp: updateOrderStatus_def validateStatusTransition_def valid_iff_table
        updateStatus_def findById_def Let_def publishOrderStatusChanged_def console_log_def
        split: option.splits)
next
  case False
  with assms show ?thesis
    by (simp add: updateOrderStatus_def validateStatusTransition_def valid_iff_table
        findById_def)
qed

text \<open>A pending order: shipping it is rejected, confirming it is accepted.\<close>

theorem updateOrderStatus_transitions_witness:
  "orders sample_store ''o1'' = Some sample_order
   \<and> (status sample_order, Shipped) \<notin> set spec_transition_table
   \<and> updateOrderStatus 1700000000500 ''o1'' Shipped None sample_store
       = (Inl (Error ''Cannot transition from pending to shipped''), sample_store)
   \<and> (status sample_order, Confirmed) \<in> set spec_transition_table
   \<and> user_orders sample_store (userId sample_order @ ''_'' @ ''o1'') \<noteq> None
   \<and> (\<exists>stored. orders (snd (updateOrderStatus 1700000000500 ''o1'' Confirmed (Some ''paid'')
                                sample_store)) ''o1'' = Some stored
         \<and> status stored = Confirmed
         \<and> fst (updateOrderStatus 1700000000500 ''o1'' Confirmed (Some ''paid'') sample_store)
             = Inr (Some stored))"
  using updateOrderStatus_transitions [OF sample_store_order, of Shipped 1700000000500 None]
    updateOrderStatus_transitions [OF sample_store_order, of Confirmed 1700000000500 "Some ''paid''"]
    sample_store_order sample_store_index
  by (simp add: sample_order_fields spec_transition_table_def)

subsection \<open>Cancellation\<close>

text \<open>
  C8. For a stored order, \<^verbatim>\<open>cancelOrder\<close> fails and changes nothing when the status is
  neither pending nor confirmed. Otherwise it succeeds: the stored and returned order is
  the old one with status cancelled, \<^verbatim>\<open>cancelledAt\<close>, \<^verbatim>\<open>cancelledBy\<close> and
  \<^verbatim>\<open>cancellationReason\<close> set, the inventory release is requested, and a refund is
  requested exactly when the payment status read before the update was paid.
\<close>

theorem cancelOrder_gate:
  assumes "orders s oid = Some order"
  shows "(status order \<noteq> Pending \<and> status order \<noteq> Confirmed \<longrightarrow>
            cancelOrder now c oid reason actor s
              = (Inl (Error ''Order cannot be cancelled at this stage''), s))
       \<and> (status order = Pending \<or> status order = Confirmed \<longrightarrow>
            (\<exists>refreshed s'. cancelOrder now c oid reason actor s = (Inr (Some refreshed), s')
               \<and> orders s' oid = Some refreshed
               \<and> refreshed = order\<lparr> status := Cancelled, cancelledAt := Some now,
                     cancelledBy := Some actor, cancellationReason := Some reason,
                     updatedAt := now \<rparr>
               \<and> outbox s' = outbox s @ [InventoryRelease oid (items order)]
                    @ (if paymentStatus order = Paid
                       then [PaymentRefund (order_id order) (paymentTransactionId order)
                               (order_total order) (cancellationReason order)]
                       else [])))"
  using assms
  by (auto simp: cancelOrder_def findById_def update_def Let_def releaseInventory_def
      initiateRefund_def send_def console_log_def)

text \<open>A shipped order, a confirmed and paid order, and a pending unpaid order.\<close>

lemma paid_store_order:
  "orders paid_store ''o1'' = Some (sample_order\<lparr> status := Confirmed, paymentStatus := Paid \<rparr>)"
  by (simp add: paid_store_def)

lemma shipped_store_order:
  "orders shipped_store ''o1'' = Some (sample_order\<lparr> status := Shipped, paymentStatus := Paid \<rparr>)"
  by (simp add: shipped_store_def)

theorem cancelOrder_gate_witness:
  "orders shipped_store ''o1'' = Some (sample_order\<lparr> status := Shipped, paymentStatus := Paid \<rparr>)
   \<and> cancelOrder 1700000000500 reserve_fails ''o1'' ''changed my mind'' ''u1'' shipped_store
       = (Inl (Error ''Order cannot be cancelled at this stage''), shipped_store)
   \<and> orders paid_store ''o1'' = Some (sample_order\<lparr> status := Confirmed, paymentStatus := Paid \<rparr>)
   \<and> (\<exists>refreshed s'.
         cancelOrder 1700000000500 reserve_fails ''o1'' ''changed my mind'' ''u1'' paid_store
           = (Inr (Some refreshed), s')
       \<and> status refreshed = Cancelled \<and> cancelledAt refreshed = Some 1700000000500
       \<and> cancelledBy refreshed = Some ''u1''
       \<and> cancellationReason refreshed = Some ''changed my mind''
       \<and> outbox s' = outbox paid_store
            @ [InventoryRelease ''o1'' [sample_item], PaymentRefund ''o1'' None 1 None])
   \<and> orders sample_store ''o1'' = Some sample_order
   \<and> (\<exists>refreshed s'.
         cancelOrder 1700000000500 reserve_fails ''o1'' ''changed my mind'' ''u1'' sample_store
           = (Inr (Some refreshed), s')
       \<and> status refreshed = Cancelled
       \<and> outbox s' = outbox sample_store @ [InventoryRelease ''o1'' [sample_item]])"
  using cancelOrder_gate [OF shipped_store_order, of 1700000000500 reserve_fails "''changed my mind''" "''u1''"]
    cancelOrder_gate [OF paid_store_order, of 1700000000500 reserve_fails "''changed my mind''" "''u1''"]
    cancelOrder_gate [OF sample_store_order, of 1700000000500 reserve_fails "''changed my mind''" "''u1''"]
    shipped_store_order paid_store_order sample_store_order
  by (auto simp: sample_order_fields)

subsection \<open>Creation without a reservation\<close>





subsection \<open>Ledger updates\<close>









subsection \<open>The metadata loop\<close>




subsection \<open>The paths through the callback route\<close>




lemma callback_try_no_stk:
  "\<not> truthy (stk_of callback) \<Longrightarrow> snd (callback_try now callback c) = c"
  by (simp add: callback_try_def read_prop_def Let_def stk_of_def)









text \<open>
  C4. Whatever the body of the request and whatever the ledger holds, and whether the
  \<^verbatim>\<open>try\<close> block ends normally or throws, the route answers
  \<^verbatim>\<open>{ResultCode: 0, ResultDesc: "Success"}\<close>.
\<close>

theorem callback_always_acknowledged:
  "fst (mpesa_callback now callback c) = Success"
  by (simp add: mpesa_callback_def Success_def split: prod.splits sum.splits)



subsection \<open>Phone numbers\<close>

lemma list_all_filter: "list_all P (filter P xs)"
  by (induction xs) simp_all

lemma phone_cases:
  "validateAndFormatPhone p =
     (if zero_and_nine_digits (digits_of p) then Inr (''254'' @ drop 1 (digits_of p))
      else if seven_and_eight_digits (digits_of p) then Inr (''254'' @ digits_of p)
      else if prefixed_twelve_digits (digits_of p) then Inr (digits_of p)
      else Inl (Error ''Invalid phone number format. Use: 2547XXXXXXXX''))"
proof -
  have d: "list_all is_digit (digits_of p)" by (simp add: digits_of_def list_all_filter)
  show ?thesis
  proof (cases "digits_of p")
    case Nil
    then show ?thesis
      by (simp add: validateAndFormatPhone_def digits_of_def [symmetric] startsWith_def
          zero_and_nine_digits_def seven_and_eight_digits_def prefixed_twelve_digits_def)
  next
    case (Cons a rest)
    with d show ?thesis
      by (auto simp: validateAndFormatPhone_def digits_of_def [symmetric] startsWith_def
          zero_and_nine_digits_def seven_and_eight_digits_def prefixed_twelve_digits_def
          split: list.splits)
  qed
qed

text \<open>
  C6. \<^verbatim>\<open>"0712345678"\<close> and \<^verbatim>\<open>"712345678"\<close> become \<^verbatim>\<open>"254712345678"\<close>, which itself is
  left as it is, and \<^verbatim>\<open>"12345"\<close> is rejected. In general an input whose digits have
  none of the three shapes is rejected with the phone-format error, and an input whose
  digits have one of them is rewritten to the 254 form.
\<close>

theorem phone_normalization:
  "validateAndFormatPhone ''0712345678'' = Inr ''254712345678''
   \<and> validateAndFormatPhone ''712345678'' = Inr ''254712345678''
   \<and> validateAndFormatPhone ''254712345678'' = Inr ''254712345678''
   \<and> validateAndFormatPhone ''12345'' = Inl (Error ''Invalid phone number format. Use: 2547XXXXXXXX'')
   \<and> (\<not> zero_and_nine_digits (digits_of p) \<and> \<not> seven_and_eight_digits (digits_of p)
        \<and> \<not> prefixed_twelve_digits (digits_of p) \<longrightarrow>
        validateAndFormatPhone p = Inl (Error ''Invalid phone number format. Use: 2547XXXXXXXX''))
   \<and> (zero_and_nine_digits (digits_of p) \<longrightarrow>
        validateAndFormatPhone p = Inr (''254'' @ drop 1 (digits_of p)))
   \<and> (seven_and_eight_digits (digits_of p) \<longrightarrow>
        validateAndFormatPhone p = Inr (''254'' @ digits_of p))
   \<and> (prefixed_twelve_digits (digits_of p) \<longrightarrow> validateAndFormatPhone p = Inr (digits_of p))"
proof -
  have ex: "validateAndFormatPhone ''0712345678'' = Inr ''254712345678''"
    "validateAndFormatPhone ''712345678'' = Inr ''254712345678''"
    "validateAndFormatPhone ''254712345678'' = Inr ''254712345678''"
    "validateAndFormatPhone ''12345'' = Inl (Error ''Invalid phone number format. Use: 2547XXXXXXXX'')"
    by (simp_all add: validateAndFormatPhone_def is_digit_def startsWith_def)
  have x: "\<not> (zero_and_nine_digits ds \<and> seven_and_eight_digits ds)"
     "\<not> (zero_and_nine_digits ds \<and> prefixed_twelve_digits ds)"
     "\<not> (seven_and_eight_digits ds \<and> prefixed_twelve_digits ds)" for ds
    by (auto simp: zero_and_nine_digits_def seven_and_eight_digits_def prefixed_twelve_digits_def
        split: list.splits)
  show ?thesis using ex x [of "digits_of p"] by (auto simp: phone_cases)
qed

theorem phone_normalization_witness:
  "\<not> zero_and_nine_digits (digits_of ''+254 (712) 345-67'')
   \<and> \<not> seven_and_eight_digits (digits_of ''+254 (712) 345-67'')
   \<and> \<not> prefixed_twelve_digits (digits_of ''+254 (712) 345-67'')
   \<and> validateAndFormatPhone ''+254 (712) 345-67''
       = Inl (Error ''Invalid phone number format. Use: 2547XXXXXXXX'')
   \<and> zero_and_nine_digits (digits_of ''0712 345 678'')
   \<and> validateAndFormatPhone ''0712 345 678'' = Inr ''254712345678''
   \<and> seven_and_eight_digits (digits_of ''712-345-678'')
   \<and> validateAndFormatPhone ''712-345-678'' = Inr ''254712345678''
   \<and> prefixed_twelve_digits (digits_of ''+254 712 345 678'')
   \<and> validateAndFormatPhone ''+254 712 345 678'' = Inr ''254712345678''"
  using phone_normalization [of "''+254 (712) 345-67''"] phone_normalization [of "''0712 345 678''"]
    phone_normalization [of "''712-345-678''"] phone_normalization [of "''+254 712 345 678''"]
  by (simp add: zero_and_nine_digits_def seven_and_eight_digits_def prefixed_twelve_digits_def
      digits_of_def is_digit_def)

subsection \<open>Push requests\<close>

lemma stk_try_phone:
  "validateAndFormatPhone (phone request) = Inl e \<Longrightarrow>
   stk_try now newId base64 g config request s = (Inl e, s)"
  by (simp add: stk_try_def)

lemma stk_try_amount:
  "validateAndFormatPhone (phone request) = Inr p \<Longrightarrow>
   validateAmount config (amount request) = Inl e \<Longrightarrow>
   stk_try now newId base64 g config request s = (Inl e, s)"
  by (simp add: stk_try_def)

lemma initiateSTKPush_failure:
  "stk_try now newId base64 g config request s = (Inl e, s1) \<Longrightarrow>
   initiateSTKPush now newId base64 g config request s =
     (Inl (Error (''STK Push failed: '' @ error_text e)),
      s1\<lparr> ledger := ledger s1 @ [(newId, failed_row now config request (error_text e))] \<rparr>)"
  by (simp add: initiateSTKPush_def createTransaction_def failed_row_def)

lemma phone_error:
  "validateAndFormatPhone p = Inl e \<Longrightarrow>
   e = Error ''Invalid phone number format. Use: 2547XXXXXXXX''"
  by (auto simp: validateAndFormatPhone_def Let_def split: if_splits)

lemma initiateSTKPush_failure_facts:
  assumes "stk_try now newId base64 g config request s = (Inl e, s)"
  shows "fst (initiateSTKPush now newId base64 g config request s)
           = Inl (Error (''STK Push failed: '' @ error_text e))"
    and "gateway_calls (snd (initiateSTKPush now newId base64 g config request s))
           = gateway_calls s"
  using initiateSTKPush_failure [OF assms] by simp_all

text \<open>
  C5, as amended. \<^verbatim>\<open>initiateSTKPush\<close> checks the phone number first and the amount
  second. A phone number that does not normalize fails with the phone-format error
  whatever the amount is. With a phone number that normalizes, an amount of 0 or less
  fails with the greater-than-0 error, and in production mode a positive amount below 10
  fails with the minimum-amount error. Each of these failures comes before any request
  to the gateway. A positive amount that passes is rounded down (it need not be an
  integer), and then the gateway is called.
\<close>

theorem stk_validation_order:
  "(validateAndFormatPhone (phone request) = Inl e \<longrightarrow>
      fst (initiateSTKPush now newId base64 g config request s)
        = Inl (Error ''STK Push failed: Invalid phone number format. Use: 2547XXXXXXXX'')
      \<and> gateway_calls (snd (initiateSTKPush now newId base64 g config request s))
        = gateway_calls s)
 \<and> (validateAndFormatPhone (phone request) = Inr p \<and> amount request \<le> 0 \<longrightarrow>
      fst (initiateSTKPush now newId base64 g config request s)
        = Inl (Error ''STK Push failed: Amount must be greater than 0'')
      \<and> gateway_calls (snd (initiateSTKPush now newId base64 g config request s))
        = gateway_calls s)
 \<and> (validateAndFormatPhone (phone request) = Inr p \<and> environment config = Production
      \<and> 0 < amount request \<and> amount request < 10 \<longrightarrow>
      fst (initiateSTKPush now newId base64 g config request s)
        = Inl (Error ''STK Push failed: Minimum amount for production is KES 10'')
      \<and> gateway_calls (snd (initiateSTKPush now newId base64 g config request s))
        = gateway_calls s)
 \<and> (validateAndFormatPhone (phone request) = Inr p \<and> 0 < amount request
      \<and> (environment config = Production \<longrightarrow> 10 \<le> amount request) \<longrightarrow>
      validateAmount config (amount request) = Inr \<lfloor>amount request\<rfloor>
      \<and> length (gateway_calls s)
          < length (gateway_calls (snd (initiateSTKPush now newId base64 g config request s))))"
proof (intro conjI impI)
  assume a: "validateAndFormatPhone (phone request) = Inl e"
  note f = initiateSTKPush_failure_facts [OF stk_try_phone [OF a]]
  show "fst (initiateSTKPush now newId base64 g config request s)
        = Inl (Error ''STK Push failed: Invalid phone number format. Use: 2547XXXXXXXX'')"
    using f(1) phone_error [OF a] by simp
  show "gateway_calls (snd (initiateSTKPush now newId base64 g config request s))
        = gateway_calls s"
    by (rule f(2))
next
  assume a: "validateAndFormatPhone (phone request) = Inr p \<and> amount request \<le> 0"
  then have v: "validateAmount config (amount request)
      = Inl (Error ''Amount must be greater than 0'')"
    by (simp add: validateAmount_def)
  from a have ph: "validateAndFormatPhone (phone request) = Inr p" by simp
  note f = initiateSTKPush_failure_facts [OF stk_try_amount [OF ph v]]
  show "fst (initiateSTKPush now newId base64 g config request s)
        = Inl (Error ''STK Push failed: Amount must be greater than 0'')"
    using f(1) by simp
  show "gateway_calls (snd (initiateSTKPush now newId base64 g config request s))
        = gateway_calls s"
    by (rule f(2))
next
  assume a: "validateAndFormatPhone (phone request) = Inr p \<and> environment config = Production
      \<and> 0 < amount request \<and> amount request < 10"
  then have v: "validateAmount config (amount request)
      = Inl (Error ''Minimum amount for production is KES 10'')"
    by (simp add: validateAmount_def)
  from a have ph: "validateAndFormatPhone (phone request) = Inr p" by simp
  note f = initiateSTKPush_failure_facts [OF stk_try_amount [OF ph v]]
  show "fst (initiateSTKPush now newId base64 g config request s)
        = Inl (Error ''STK Push failed: Minimum amount for production is KES 10'')"
    using f(1) by simp
  show "gateway_calls (snd (initiateSTKPush now newId base64 g config request s))
        = gateway_calls s"
    by (rule f(2))
next
  assume a: "validateAndFormatPhone (phone request) = Inr p \<and> 0 < amount request
      \<and> (environment config = Production \<longrightarrow> 10 \<le> amount request)"
  then show v: "validateAmount config (amount request) = Inr \<lfloor>amount request\<rfloor>"
    by (auto simp: validateAmount_def)
  from a v show "length (gateway_calls s)
      < length (gateway_calls (snd (initiateSTKPush now newId base64 g config request s)))"
    by (auto simp: initiateSTKPush_def stk_try_def getAccessToken_def Let_def
        split: sum.splits option.splits)
qed

theorem stk_validation_order_witness:
  "validateAndFormatPhone (phone bad_phone_push)
     = Inl (Error ''Invalid phone number format. Use: 2547XXXXXXXX'')
   \<and> fst (initiateSTKPush sample_clock ''t1'' id sample_gateway sample_config
            bad_phone_push no_payments)
       = Inl (Error ''STK Push failed: Invalid phone number format. Use: 2547XXXXXXXX'')
   \<and> validateAndFormatPhone (phone (sample_push\<lparr> amount := 0 \<rparr>)) = Inr ''254712345678''
   \<and> amount (sample_push\<lparr> amount := 0 \<rparr>) \<le> 0
   \<and> fst (initiateSTKPush sample_clock ''t1'' id sample_gateway sample_config
            (sample_push\<lparr> amount := 0 \<rparr>) no_payments)
       = Inl (Error ''STK Push failed: Amount must be greater than 0'')
   \<and> gateway_calls (snd (initiateSTKPush sample_clock ''t1'' id sample_gateway sample_config
            (sample_push\<lparr> amount := 0 \<rparr>) no_payments)) = gateway_calls no_payments
   \<and> environment production_config = Production
   \<and> 0 < amount (sample_push\<lparr> amount := 5 \<rparr>) \<and> amount (sample_push\<lparr> amount := 5 \<rparr>) < 10
   \<and> fst (initiateSTKPush sample_clock ''t1'' id sample_gateway production_config
            (sample_push\<lparr> amount := 5 \<rparr>) no_payments)
       = Inl (Error ''STK Push failed: Minimum amount for production is KES 10'')
   \<and> 0 < amount (sample_push\<lparr> amount := 1 / 2 \<rparr>)
   \<and> validateAmount sample_config (amount (sample_push\<lparr> amount := 1 / 2 \<rparr>)) = Inr 0
   \<and> length (gateway_calls no_payments)
       < length (gateway_calls (snd (initiateSTKPush sample_clock ''t1'' id sample_gateway
            sample_config (sample_push\<lparr> amount := 1 / 2 \<rparr>) no_payments)))"
proof -
  have ph: "validateAndFormatPhone ''0712345678'' = Inr ''254712345678''"
    "validateAndFormatPhone ''12345'' = Inl (Error ''Invalid phone number format. Use: 2547XXXXXXXX'')"
    by (simp_all add: validateAndFormatPhone_def is_digit_def startsWith_def)
  show ?thesis
    using stk_validation_order [of bad_phone_push
        "Error ''Invalid phone number format. Use: 2547XXXXXXXX''" sample_clock "''t1''" id
        sample_gateway sample_config no_payments "''254712345678''"]
      stk_validation_order [of "sample_push\<lparr> amount := 0 \<rparr>" "Error ''Invalid phone number format. Use: 2547XXXXXXXX''" sample_clock "''t1''"
        id sample_gateway sample_config no_payments "''254712345678''"]
      stk_validation_order [of "sample_push\<lparr> amount := 5 \<rparr>" "Error ''Invalid phone number format. Use: 2547XXXXXXXX''" sample_clock "''t1''"
        id sample_gateway production_config no_payments "''254712345678''"]
      stk_validation_order [of "sample_push\<lparr> amount := 1 / 2 \<rparr>" "Error ''Invalid phone number format. Use: 2547XXXXXXXX''" sample_clock "''t1''"
        id sample_gateway sample_config no_payments "''254712345678''"]
      ph
    by (simp add: sample_push_def bad_phone_push_def production_config_def sample_config_def)
qed

text \<open>
  With the phone number \<^verbatim>\<open>"12345"\<close> and the amount 0 the error is the one of the phone
  check, not the one of the amount check: the phone check comes first.
\<close>

theorem stk_amount_before_phone_counterexample:
  "initiateSTKPush sample_clock ''t1'' id sample_gateway sample_config bad_phone_push no_payments
    = (Inl (Error ''STK Push failed: Invalid phone number format. Use: 2547XXXXXXXX''),
       \<lparr> ledger = [(''t1'', failed_row sample_clock sample_config bad_phone_push
             ''Invalid phone number format. Use: 2547XXXXXXXX'')],
         gateway_calls = [] \<rparr>)
   \<and> amount bad_phone_push = 0
   \<and> fst (initiateSTKPush sample_clock ''t1'' id sample_gateway sample_config bad_phone_push
            no_payments)
      \<noteq> Inl (Error ''STK Push failed: Amount must be greater than 0'')"
  by (simp add: initiateSTKPush_def stk_try_def validateAndFormatPhone_def is_digit_def
      startsWith_def bad_phone_push_def no_payments_def createTransaction_def failed_row_def)


subsection \<open>The sample ledger\<close>

text \<open>The sample ledger is what an accepted push for the sample request leaves behind.\<close>

lemma sample_ledger_reached:
  "initiateSTKPush sample_clock ''t1'' id sample_gateway sample_config sample_push no_payments
     = (Inr \<lparr> merchantRequestId = ''29115-1'', checkoutRequestId = ''ws_CO_1'',
          responseCode = ''0'', responseDescription = ''Accepted'',
          customerMessage = ''Accepted'' \<rparr>,
        \<lparr> ledger = sample_ledger,
          gateway_calls = [OAuthGenerate ''key'' ''secret'',
            ProcessRequest ''token''
              \<lparr> BusinessShortCode = ''174379'', Password = ''174379passkey20231114221320'',
                Timestamp = ''20231114221320'', TransactionType = ''CustomerPayBillOnline'',
                Amount = 245, PartyA = ''254712345678'', PartyB = ''174379'',
                PhoneNumber = ''254712345678'',
                CallBackURL = ''https://shop.example/api/payments/mpesa/callback'',
                AccountReference = ''o1'', TransactionDesc = ''Payment for order o1'' \<rparr>] \<rparr>)"
  by (simp add: initiateSTKPush_def stk_try_def validateAndFormatPhone_def is_digit_def
      startsWith_def validateAmount_def getAccessToken_def generateTimestamp_def
      generatePassword_def padStart_def dec_nat.simps digit_char_def createTransaction_def
      sample_push_def sample_config_def sample_gateway_def sample_clock_def no_payments_def
      sample_ledger_def sample_row_def Let_def)








end
